theory Spec2Isabelle
  imports Complex_Main
begin

section \<open>Floating-point values of the data frame\<close>

text \<open>
  The columns of the pandas frame hold float64 values: NaN (pandas' missing value),
  the two infinities, and the finite doubles, each of which is a real number. Every
  arithmetic operation on finite values computes the exact real result and rounds it;
  the rounding, a function from the exact result to the float64 returned, is the
  parameter \<open>rnd\<close> of the model. The program runs with \<open>round64\<close>, round-to-nearest-even
  to 53 significant bits with gradual underflow and overflow to an infinity; \<open>Fin\<close>
  itself is the rounding of exact arithmetic. A zero divisor is +0.0.
\<close>

datatype fl = NaN | Fin real | PInf | NInf

type_synonym rounding = "real \<Rightarrow> fl"

fun inf_of_sign :: "real \<Rightarrow> fl" where
  "inf_of_sign s = (if 0 < s then PInf else if s < 0 then NInf else NaN)"

text \<open>Round half to even, to an integer.\<close>

definition rint :: "real \<Rightarrow> int" where
  "rint r =
     (let f = \<lfloor>r\<rfloor>; d = r - of_int f
      in if d < 1 / 2 then f else if 1 / 2 < d then f + 1 else if even f then f else f + 1)"

text \<open>
  The binary exponent of a double: that of its binade, and -1022 throughout the
  subnormal range. A double with exponent \<open>e\<close> is a multiple of \<open>2 powi (e - 52)\<close>.
\<close>

definition expo :: "real \<Rightarrow> int" where
  "expo x = max (- 1022) \<lfloor>log 2 \<bar>x\<bar>\<rfloor>"

text \<open>Results of this magnitude or more overflow to an infinity.\<close>

definition huge :: real where
  "huge = 2 ^ 1024"

definition round64 :: rounding where
  "round64 x =
     (let u = 2 powi (expo x - 52); y = of_int (rint (x / u)) * u
      in if huge \<le> \<bar>y\<bar> then inf_of_sign x else Fin y)"

fun fneg :: "fl \<Rightarrow> fl" where
  "fneg NaN = NaN"
| "fneg (Fin a) = Fin (- a)"
| "fneg PInf = NInf"
| "fneg NInf = PInf"

fun fadd :: "rounding \<Rightarrow> fl \<Rightarrow> fl \<Rightarrow> fl" where
  "fadd rnd (Fin a) (Fin b) = rnd (a + b)"
| "fadd rnd NaN y = NaN"
| "fadd rnd x NaN = NaN"
| "fadd rnd PInf NInf = NaN"
| "fadd rnd NInf PInf = NaN"
| "fadd rnd PInf y = PInf"
| "fadd rnd x PInf = PInf"
| "fadd rnd NInf y = NInf"
| "fadd rnd x NInf = NInf"

definition fsub :: "rounding \<Rightarrow> fl \<Rightarrow> fl \<Rightarrow> fl" where
  "fsub rnd x y = fadd rnd x (fneg y)"

fun fmul :: "rounding \<Rightarrow> fl \<Rightarrow> fl \<Rightarrow> fl" where
  "fmul rnd (Fin a) (Fin b) = rnd (a * b)"
| "fmul rnd NaN y = NaN"
| "fmul rnd x NaN = NaN"
| "fmul rnd (Fin a) PInf = inf_of_sign a"
| "fmul rnd (Fin a) NInf = inf_of_sign (- a)"
| "fmul rnd PInf (Fin b) = inf_of_sign b"
| "fmul rnd NInf (Fin b) = inf_of_sign (- b)"
| "fmul rnd PInf PInf = PInf"
| "fmul rnd NInf NInf = PInf"
| "fmul rnd PInf NInf = NInf"
| "fmul rnd NInf PInf = NInf"

text \<open>numpy scalar division: no exception, a zero divisor gives an infinity or NaN.\<close>

fun fdiv :: "rounding \<Rightarrow> fl \<Rightarrow> fl \<Rightarrow> fl" where
  "fdiv rnd (Fin a) (Fin b) = (if b = 0 then inf_of_sign a else rnd (a / b))"
| "fdiv rnd NaN y = NaN"
| "fdiv rnd x NaN = NaN"
| "fdiv rnd (Fin a) y = Fin 0"
| "fdiv rnd PInf (Fin b) = (if b < 0 then NInf else PInf)"
| "fdiv rnd NInf (Fin b) = (if b < 0 then PInf else NInf)"
| "fdiv rnd x y = NaN"

text \<open>Comparisons: every comparison with NaN is false, except \<open>!=\<close>, which is true.\<close>

fun flt :: "fl \<Rightarrow> fl \<Rightarrow> bool" where
  "flt (Fin a) (Fin b) = (a < b)"
| "flt NaN y = False"
| "flt x NaN = False"
| "flt x NInf = False"
| "flt PInf y = False"
| "flt x y = True"

definition fgt :: "fl \<Rightarrow> fl \<Rightarrow> bool" where
  "fgt x y = flt y x"

definition fne :: "fl \<Rightarrow> fl \<Rightarrow> bool" where
  "fne x y = (x = NaN \<or> y = NaN \<or> x \<noteq> y)"

definition fle :: "fl \<Rightarrow> fl \<Rightarrow> bool" where
  "fle x y = (x \<noteq> NaN \<and> y \<noteq> NaN \<and> (flt x y \<or> x = y))"

fun fsqrt :: "rounding \<Rightarrow> fl \<Rightarrow> fl" where
  "fsqrt rnd (Fin a) = (if a < 0 then NaN else rnd (sqrt a))"
| "fsqrt rnd PInf = PInf"
| "fsqrt rnd x = NaN"

text \<open>
  \<open>x ** y\<close> for a float64 \<open>x\<close> and a Python float \<open>y\<close>, as the correctly rounded power:
  a negative base has a power only for an integral exponent.
\<close>

fun fpow_fin :: "rounding \<Rightarrow> fl \<Rightarrow> real \<Rightarrow> fl" where
  "fpow_fin rnd (Fin x) y =
     (if y = 0 then Fin 1
      else if 0 < x then rnd (x powr y)
      else if x = 0 then (if 0 < y then Fin 0 else PInf)
      else if y \<in> \<int> then rnd (power_int x (\<lfloor>y\<rfloor>))
      else NaN)"
| "fpow_fin rnd NaN y = (if y = 0 then Fin 1 else NaN)"
| "fpow_fin rnd PInf y = (if y = 0 then Fin 1 else if 0 < y then PInf else Fin 0)"
| "fpow_fin rnd NInf y =
     (if y = 0 then Fin 1
      else if y < 0 then Fin 0
      else if y \<in> \<int> \<and> odd \<lfloor>y\<rfloor> then NInf else PInf)"

fun fpow_inf :: "fl \<Rightarrow> bool \<Rightarrow> fl" where
  "fpow_inf NaN up = NaN"
| "fpow_inf (Fin x) up =
     (if \<bar>x\<bar> = 1 then Fin 1 else if (1 < \<bar>x\<bar>) = up then PInf else Fin 0)"
| "fpow_inf x up = (if up then PInf else Fin 0)"

fun fpow :: "rounding \<Rightarrow> fl \<Rightarrow> fl \<Rightarrow> fl" where
  "fpow rnd x (Fin y) = fpow_fin rnd x y"
| "fpow rnd x NaN = (if x = Fin 1 then Fin 1 else NaN)"
| "fpow rnd x PInf = fpow_inf x True"
| "fpow rnd x NInf = fpow_inf x False"

text \<open>\<open>round(x, 2)\<close> on a float64: scale by 100, round half to even, scale back.\<close>

fun frint :: "fl \<Rightarrow> fl" where
  "frint (Fin a) = Fin (of_int (rint a))"
| "frint x = x"

definition round2 :: "rounding \<Rightarrow> fl \<Rightarrow> fl" where
  "round2 rnd x = fdiv rnd (frint (fmul rnd x (Fin 100))) (Fin 100)"

text \<open>
  What the theorems below ask of a rounding: it never returns NaN, it leaves 0 and 1
  as they are, and it keeps the sign of the exact result.
\<close>

definition rounding :: "rounding \<Rightarrow> bool" where
  "rounding rnd \<longleftrightarrow>
     (\<forall>x. rnd x \<noteq> NaN) \<and> rnd 0 = Fin 0 \<and> rnd 1 = Fin 1
     \<and> (\<forall>x. 0 \<le> x \<longrightarrow> fle (Fin 0) (rnd x)) \<and> (\<forall>x. x \<le> 0 \<longrightarrow> fle (rnd x) (Fin 0))"

section \<open>The pandas operations the program calls\<close>

datatype error = IndexError | ZeroDivisionError

text \<open>\<open>s.shift(1)\<close>: every value moves one row down, the first row is NaN.\<close>

definition shift1 :: "real list \<Rightarrow> fl list" where
  "shift1 xs = (if xs = [] then [] else NaN # map Fin (butlast xs))"

text \<open>\<open>s.diff()\<close> is \<open>s - s.shift(1)\<close>, in float64.\<close>

definition diff :: "rounding \<Rightarrow> real list \<Rightarrow> fl list" where
  "diff rnd xs = map2 (fsub rnd) (map Fin xs) (shift1 xs)"

text \<open>\<open>s.pct_change()\<close> is \<open>s / s.shift(1) - 1\<close>.\<close>

definition pct_change :: "rounding \<Rightarrow> real list \<Rightarrow> fl list" where
  "pct_change rnd xs = map2 (\<lambda>c p. fsub rnd (fdiv rnd (Fin c) p) (Fin 1)) xs (shift1 xs)"

text \<open>
  \<open>s.rolling(window=w).mean()\<close>, with \<open>min_periods\<close> at its default, the window size.
  pandas walks the column once with a running float sum and a count of the observations
  in the window: the entering observation is added, the one that leaves is removed, and
  the mean is \<open>sum / nobs\<close> once \<open>nobs\<close> has reached \<open>min_periods\<close> (and is not zero),
  NaN before.
\<close>

definition calc_mean :: "rounding \<Rightarrow> nat \<Rightarrow> nat \<Rightarrow> fl \<Rightarrow> fl" where
  "calc_mean rnd minp nobs sum_x =
     (if minp \<le> nobs \<and> 0 < nobs then fdiv rnd sum_x (Fin (real nobs)) else NaN)"

fun roll_mean :: "rounding \<Rightarrow> nat \<Rightarrow> real list \<Rightarrow> real list \<Rightarrow> nat \<Rightarrow> fl \<Rightarrow> nat \<Rightarrow> fl list" where
  "roll_mean rnd w vals [] i sum_x nobs = []"
| "roll_mean rnd w vals (x # rest) i sum_x nobs =
     (let s1 = fadd rnd sum_x (Fin x); n1 = nobs + 1;
          s2 = (if w \<le> i then fsub rnd s1 (Fin (vals ! (i - w))) else s1);
          n2 = (if w \<le> i then n1 - 1 else n1)
      in calc_mean rnd w n2 s2 # roll_mean rnd w vals rest (Suc i) s2 n2)"

definition rolling_mean :: "rounding \<Rightarrow> nat \<Rightarrow> real list \<Rightarrow> fl list" where
  "rolling_mean rnd w xs = roll_mean rnd w xs xs 0 (Fin 0) 0"

text \<open>
  \<open>s.cumprod()\<close> and \<open>s.cummax()\<close> skip NaN: a NaN row stays NaN in the result and does
  not enter the running product or the running maximum.
\<close>

fun cumprod_from :: "rounding \<Rightarrow> fl \<Rightarrow> fl list \<Rightarrow> fl list" where
  "cumprod_from rnd p [] = []"
| "cumprod_from rnd p (x # xs) =
     (if x = NaN then NaN # cumprod_from rnd p xs
      else fmul rnd p x # cumprod_from rnd (fmul rnd p x) xs)"

definition cumprod :: "rounding \<Rightarrow> fl list \<Rightarrow> fl list" where
  "cumprod rnd xs = cumprod_from rnd (Fin 1) xs"

fun cummax_from :: "fl \<Rightarrow> fl list \<Rightarrow> fl list" where
  "cummax_from m [] = []"
| "cummax_from m (x # xs) =
     (if x = NaN then NaN # cummax_from m xs
      else (if flt m x then x else m) # cummax_from (if flt m x then x else m) xs)"

definition cummax :: "fl list \<Rightarrow> fl list" where
  "cummax xs = cummax_from NInf xs"

text \<open>The reductions \<open>mean\<close>, \<open>std\<close> (with \<open>ddof=1\<close>) and \<open>min\<close> drop the NaN rows first.\<close>

definition dropna :: "fl list \<Rightarrow> fl list" where
  "dropna xs = filter (\<lambda>x. x \<noteq> NaN) xs"

definition fsum :: "rounding \<Rightarrow> fl list \<Rightarrow> fl" where
  "fsum rnd xs = foldl (fadd rnd) (Fin 0) xs"

definition mean :: "rounding \<Rightarrow> fl list \<Rightarrow> fl" where
  "mean rnd xs =
     (let vs = dropna xs
      in if vs = [] then NaN else fdiv rnd (fsum rnd vs) (Fin (real (length vs))))"

definition std :: "rounding \<Rightarrow> fl list \<Rightarrow> fl" where
  "std rnd xs =
     (let vs = dropna xs; n = length vs
      in if n \<le> 1 then NaN
         else let avg = fdiv rnd (fsum rnd vs) (Fin (real n));
                  sqr = fsum rnd (map (\<lambda>v. fmul rnd (fsub rnd avg v) (fsub rnd avg v)) vs)
              in fsqrt rnd (fdiv rnd sqr (Fin (real (n - 1)))))"

definition fmin :: "fl \<Rightarrow> fl \<Rightarrow> fl" where
  "fmin x y = (if flt y x then y else x)"

definition series_min :: "fl list \<Rightarrow> fl" where
  "series_min xs = (case dropna xs of [] \<Rightarrow> NaN | v # vs \<Rightarrow> foldl fmin v vs)"

text \<open>\<open>(s != 0).sum()\<close>: the number of rows that compare unequal to zero.\<close>

definition count_ne_zero :: "fl list \<Rightarrow> nat" where
  "count_ne_zero xs = length (filter (\<lambda>x. fne x (Fin 0)) xs)"

text \<open>\<open>s.iloc[-1]\<close>: the last row; an empty column raises IndexError.\<close>

definition iloc_last :: "fl list \<Rightarrow> error + fl" where
  "iloc_last xs = (if xs = [] then Inl IndexError else Inr (last xs))"

section \<open>The strategy object and its frame\<close>

text \<open>
  The fields of \<open>MovingAverageCrossover\<close> that the computation reads. The two dates are
  datetimes, counted in microseconds; \<open>(end_date - start_date).days\<close> is the whole number
  of days of their difference.
\<close>

record strategy =
  short_window :: nat
  long_window :: nat
  initial_capital :: real
  start_date :: int
  end_date :: int

text \<open>
  \<open>self.data\<close> grows column by column: \<open>download_data\<close> supplies the closes,
  \<open>calculate_signals\<close> adds four columns and \<open>backtest\<close> six more.
\<close>

record bars =
  Close :: "real list"

record signal_frame = bars +
  SMA_short :: "fl list"
  SMA_long :: "fl list"
  Signal :: "int list"
  Position :: "fl list"

record accounted_frame = signal_frame +
  Daily_Return :: "fl list"
  Strategy_Return :: "fl list"
  Buy_Hold_Return :: "fl list"
  Strategy_Cumulative :: "fl list"
  Buy_Hold_Value :: "fl list"
  Strategy_Value :: "fl list"

text \<open>
  The signal of one row: 0, overwritten by 1 where the short average is above the long
  one, then by -1 where it is below.
\<close>

definition signal_of :: "fl \<Rightarrow> fl \<Rightarrow> int" where
  "signal_of s l =
     (let sig0 = 0;
          sig1 = (if fgt s l then 1 else sig0);
          sig2 = (if flt s l then - 1 else sig1)
      in sig2)"

definition calculate_signals :: "rounding \<Rightarrow> strategy \<Rightarrow> bars \<Rightarrow> signal_frame" where
  "calculate_signals rnd self d =
     (let sma_s = rolling_mean rnd (short_window self) (Close d);
          sma_l = rolling_mean rnd (long_window self) (Close d);
          sig = map2 signal_of sma_s sma_l
      in \<lparr>Close = Close d, SMA_short = sma_s, SMA_long = sma_l, Signal = sig,
          Position = diff rnd (map real_of_int sig)\<rparr>)"

definition backtest :: "rounding \<Rightarrow> strategy \<Rightarrow> signal_frame \<Rightarrow> accounted_frame" where
  "backtest rnd self d =
     (let dr = pct_change rnd (Close d);
          sr = map2 (fmul rnd) dr (shift1 (map real_of_int (Signal d)));
          bh = cumprod rnd (map (fadd rnd (Fin 1)) dr);
          sc = cumprod rnd (map (fadd rnd (Fin 1)) sr)
      in \<lparr>Close = Close d, SMA_short = SMA_short d, SMA_long = SMA_long d,
          Signal = Signal d, Position = Position d,
          Daily_Return = dr, Strategy_Return = sr,
          Buy_Hold_Return = bh, Strategy_Cumulative = sc,
          Buy_Hold_Value = map (fmul rnd (Fin (initial_capital self))) bh,
          Strategy_Value = map (fmul rnd (Fin (initial_capital self))) sc\<rparr>)"

section \<open>The metrics\<close>

definition days_between :: "int \<Rightarrow> int \<Rightarrow> int" where
  "days_between s e = (e - s) div 86400000000"

definition years_of :: "rounding \<Rightarrow> strategy \<Rightarrow> fl" where
  "years_of rnd self =
     fdiv rnd (Fin (real_of_int (days_between (start_date self) (end_date self)))) (Fin 365.25)"

definition total_return :: "rounding \<Rightarrow> real \<Rightarrow> fl \<Rightarrow> fl" where
  "total_return rnd capital final =
     fmul rnd (fsub rnd (fdiv rnd final (Fin capital)) (Fin 1)) (Fin 100)"

text \<open>\<open>1/years\<close> divides two Python floats and raises ZeroDivisionError for \<open>years = 0\<close>.\<close>

definition annual_return :: "rounding \<Rightarrow> real \<Rightarrow> fl \<Rightarrow> fl \<Rightarrow> error + fl" where
  "annual_return rnd capital years final =
     (if years = Fin 0 then Inl ZeroDivisionError
      else Inr (fmul rnd (fsub rnd (fpow rnd (fdiv rnd final (Fin capital))
                                              (fdiv rnd (Fin 1) years)) (Fin 1)) (Fin 100)))"

definition sharpe :: "rounding \<Rightarrow> fl list \<Rightarrow> fl" where
  "sharpe rnd rs = fmul rnd (fdiv rnd (mean rnd rs) (std rnd rs)) (fsqrt rnd (Fin 252))"

definition drawdown :: "rounding \<Rightarrow> fl list \<Rightarrow> fl list" where
  "drawdown rnd vs = map2 (\<lambda>v m. fmul rnd (fdiv rnd (fsub rnd v m) m) (Fin 100)) vs (cummax vs)"

definition max_drawdown :: "rounding \<Rightarrow> fl list \<Rightarrow> fl" where
  "max_drawdown rnd vs = series_min (drawdown rnd vs)"

definition num_trades :: "fl list \<Rightarrow> nat" where
  "num_trades pos = count_ne_zero pos"

text \<open>
  The metrics dictionary. The three currency strings of the source are kept as the
  numbers they format.
\<close>

record metrics =
  Buy_Hold_Total_Return :: fl
  Strategy_Total_Return :: fl
  Buy_Hold_Annual_Return :: fl
  Strategy_Annual_Return :: fl
  Buy_Hold_Sharpe_Ratio :: fl
  Strategy_Sharpe_Ratio :: fl
  Maximum_Drawdown :: fl
  Number_of_Trades :: nat
  Initial_Capital :: real
  Final_Strategy_Value :: fl
  Final_Buy_Hold_Value :: fl

definition calculate_metrics :: "rounding \<Rightarrow> strategy \<Rightarrow> accounted_frame \<Rightarrow> error + metrics" where
  "calculate_metrics rnd self d =
     (case iloc_last (Buy_Hold_Value d) of
        Inl e \<Rightarrow> Inl e
      | Inr bh_final \<Rightarrow>
     (case iloc_last (Strategy_Value d) of
        Inl e \<Rightarrow> Inl e
      | Inr st_final \<Rightarrow>
     (case annual_return rnd (initial_capital self) (years_of rnd self) bh_final of
        Inl e \<Rightarrow> Inl e
      | Inr buy_hold_annual \<Rightarrow>
     (case annual_return rnd (initial_capital self) (years_of rnd self) st_final of
        Inl e \<Rightarrow> Inl e
      | Inr strategy_annual \<Rightarrow>
          Inr \<lparr>Buy_Hold_Total_Return =
                 round2 rnd (total_return rnd (initial_capital self) bh_final),
               Strategy_Total_Return =
                 round2 rnd (total_return rnd (initial_capital self) st_final),
               Buy_Hold_Annual_Return = round2 rnd buy_hold_annual,
               Strategy_Annual_Return = round2 rnd strategy_annual,
               Buy_Hold_Sharpe_Ratio = round2 rnd (sharpe rnd (Daily_Return d)),
               Strategy_Sharpe_Ratio = round2 rnd (sharpe rnd (Strategy_Return d)),
               Maximum_Drawdown = round2 rnd (max_drawdown rnd (Strategy_Value d)),
               Number_of_Trades = num_trades (Position d),
               Initial_Capital = initial_capital self,
               Final_Strategy_Value = st_final,
               Final_Buy_Hold_Value = bh_final\<rparr>))))"

text \<open>\<open>run\<close>, without the download, the printing and the plot.\<close>

definition run :: "rounding \<Rightarrow> strategy \<Rightarrow> bars \<Rightarrow> error + metrics" where
  "run rnd self d = calculate_metrics rnd self (backtest rnd self (calculate_signals rnd self d))"

section \<open>The specification's own wording, and fixtures\<close>

text \<open>
  The windowed mean as the specification words it: the arithmetic mean of the closes
  \<open>close[t-w+1 .. t]\<close>, recomputed from the column at every bar.
\<close>

definition window_mean :: "rounding \<Rightarrow> nat \<Rightarrow> real list \<Rightarrow> nat \<Rightarrow> fl" where
  "window_mean rnd w xs t =
     fdiv rnd (fsum rnd (map (\<lambda>j. Fin (xs ! j)) [t + 1 - w ..< t + 1])) (Fin (real w))"

text \<open>
  The trade count as the specification words it: the bars with a nonzero
  \<open>signal[t] - signal[t-1]\<close>, the first bar having delta zero.
\<close>

definition position_delta :: "int list \<Rightarrow> nat \<Rightarrow> int" where
  "position_delta sig t = (if t = 0 then 0 else sig ! t - sig ! (t - 1))"

definition trade_count :: "int list \<Rightarrow> nat" where
  "trade_count sig = length (filter (\<lambda>t. position_delta sig t \<noteq> 0) [0 ..< length sig])"

text \<open>The buy-and-hold entries of the metrics.\<close>

definition buy_hold_metrics :: "metrics \<Rightarrow> fl \<times> fl \<times> fl \<times> fl" where
  "buy_hold_metrics m =
     (Buy_Hold_Total_Return m, Buy_Hold_Annual_Return m, Buy_Hold_Sharpe_Ratio m,
      Final_Buy_Hold_Value m)"

text \<open>
  The end-to-end scenario of the specification: ten bars, windows 2 and 4, capital 1000;
  the dates are 365.25 days apart, which is 365 whole days.
\<close>

definition fixture_strategy :: strategy where
  "fixture_strategy =
     \<lparr>short_window = 2, long_window = 4, initial_capital = 1000,
      start_date = 0, end_date = 31557600000000\<rparr>"

definition fixture_bars :: bars where
  "fixture_bars = \<lparr>Close = [100, 101, 99, 102, 103, 101, 105, 107, 104, 110]\<rparr>"

text \<open>
  Eight bars whose signals, with windows 1 and 2, are the sequence
  \<open>[0,0,1,1,-1,-1,0,1]\<close> of the specification's trade-count example.
\<close>

definition crossing_strategy :: strategy where
  "crossing_strategy =
     \<lparr>short_window = 1, long_window = 2, initial_capital = 100000,
      start_date = 0, end_date = 31557600000000\<rparr>"

definition crossing_bars :: bars where
  "crossing_bars = \<lparr>Close = [10, 10, 11, 12, 11, 10, 10, 11]\<rparr>"

definition single_bar :: bars where
  "single_bar = \<lparr>Close = [100]\<rparr>"

definition rising_bars :: bars where
  "rising_bars = \<lparr>Close = [10, 11, 12]\<rparr>"

definition flat_bars :: bars where
  "flat_bars = \<lparr>Close = [10, 10, 10]\<rparr>"

text \<open>
  Five closes, the doubles nearest to 99.96, 100.02, 99.96, 99.99 and 99.99, on which
  the running sum of a window of 3 drifts from the recomputed mean.
\<close>

definition drift_closes :: "real list" where
  "drift_closes =
     [7034059667999293 / 2 ^ 46, 7038281792649953 / 2 ^ 46, 7034059667999293 / 2 ^ 46,
      7036170730324623 / 2 ^ 46, 7036170730324623 / 2 ^ 46]"

section \<open>The rounding of float64\<close>

lemma rint_bounds: "\<lfloor>r\<rfloor> \<le> rint r \<and> rint r \<le> \<lfloor>r\<rfloor> + 1"
  by (simp add: rint_def Let_def)

lemma rint_of_int [simp]: "rint (of_int k) = k"
  by (simp add: rint_def)

lemma rint_0 [simp]: "rint 0 = 0"
  by (simp add: rint_def)

lemma huge_pos [simp]: "0 < huge" "\<not> huge \<le> 0"
  by (simp_all add: huge_def)

lemma fle_Fin [simp]: "fle (Fin a) (Fin b) = (a \<le> b)"
  by (auto simp: fle_def)

lemma fle_inf [simp]: "fle (Fin a) PInf" "fle NInf (Fin a)"
  by (simp_all add: fle_def)

lemma rint_error: "\<bar>of_int (rint r) - r\<bar> \<le> 1 / 2"
proof -
  have "of_int \<lfloor>r\<rfloor> \<le> r" "r < of_int \<lfloor>r\<rfloor> + 1" by linarith+
  then show ?thesis by (auto simp: rint_def Let_def)
qed

lemma rint_nonneg: "0 \<le> r \<Longrightarrow> 0 \<le> rint r"
  using rint_bounds [of r] by (smt (verit) zero_le_floor)

lemma rint_nonpos: "r \<le> 0 \<Longrightarrow> rint r \<le> 0"
proof -
  assume r: "r \<le> 0"
  show ?thesis
  proof (cases "r = of_int \<lfloor>r\<rfloor>")
    case True
    then have "rint r = \<lfloor>r\<rfloor>" by (metis rint_of_int)
    with r show ?thesis by (simp add: floor_le_zero)
  next
    case False
    then have "of_int \<lfloor>r\<rfloor> < r" by linarith
    with r have "real_of_int \<lfloor>r\<rfloor> < 0" by linarith
    then have "\<lfloor>r\<rfloor> < 0" by simp
    with rint_bounds [of r] show ?thesis by linarith
  qed
qed

lemma rint_abs_le:
  assumes "\<bar>r\<bar> \<le> of_int n"
  shows "\<bar>rint r\<bar> \<le> n"
proof -
  have "- of_int n \<le> r" "r \<le> of_int n" using assms by linarith+
  then have "- n \<le> \<lfloor>r\<rfloor>" "\<lceil>r\<rceil> \<le> n"
    by (simp_all add: le_floor_iff ceiling_le_iff)
  moreover have "rint r \<le> \<lceil>r\<rceil>"
  proof (cases "r = of_int \<lfloor>r\<rfloor>")
    case True
    then have "rint r = \<lfloor>r\<rfloor>" by (metis rint_of_int)
    then show ?thesis by (simp add: floor_le_ceiling)
  next
    case False
    then have "\<lceil>r\<rceil> = \<lfloor>r\<rfloor> + 1" by (metis ceiling_altdef)
    with rint_bounds [of r] show ?thesis by simp
  qed
  ultimately show ?thesis using rint_bounds [of r] by linarith
qed

lemma floor_log2_iff:
  assumes "0 < x"
  shows "\<lfloor>log 2 x\<rfloor> = k \<longleftrightarrow> 2 powi k \<le> x \<and> x < 2 powi (k + 1)"
proof -
  have "(2::real) powr real_of_int k = 2 powi k"
    "(2::real) powr real_of_int (k + 1) = 2 powi (k + 1)"
    by (rule powr_real_of_int'; simp)+
  then show ?thesis
    using floor_log_eq_powr_iff [OF assms, of 2 k] by simp
qed

lemma expo_ge: "- 1022 \<le> expo x"
  by (simp add: expo_def)

lemma expo_upper: "\<bar>x\<bar> < 2 powi (expo x + 1)"
proof (cases "x = 0")
  case True
  then show ?thesis by simp
next
  case False
  then have pos: "0 < \<bar>x\<bar>" by simp
  from floor_log2_iff [OF pos, of "\<lfloor>log 2 \<bar>x\<bar>\<rfloor>"]
  have "\<bar>x\<bar> < 2 powi (\<lfloor>log 2 \<bar>x\<bar>\<rfloor> + 1)" by simp
  also have "\<dots> \<le> 2 powi (expo x + 1)"
    by (rule power_int_increasing) (simp_all add: expo_def)
  finally show ?thesis .
qed

lemma expo_lower:
  assumes "x \<noteq> 0"
  shows "expo x = - 1022 \<or> 2 powi expo x \<le> \<bar>x\<bar>"
proof (cases "\<lfloor>log 2 \<bar>x\<bar>\<rfloor> \<le> - 1022")
  case True
  then show ?thesis by (simp add: expo_def)
next
  case False
  then have e: "expo x = \<lfloor>log 2 \<bar>x\<bar>\<rfloor>" by (simp add: expo_def)
  from assms have pos: "0 < \<bar>x\<bar>" by simp
  from floor_log2_iff [OF pos, of "\<lfloor>log 2 \<bar>x\<bar>\<rfloor>"] e show ?thesis by simp
qed

lemma expo_eq:
  assumes "2 powi e \<le> \<bar>x\<bar>" and "\<bar>x\<bar> < 2 powi (e + 1)" and "- 1022 \<le> e"
  shows "expo x = e"
proof -
  have "0 < (2::real) powi e" by simp
  with assms(1) have "0 < \<bar>x\<bar>" by linarith
  from floor_log2_iff [OF this, of e] assms have "\<lfloor>log 2 \<bar>x\<bar>\<rfloor> = e" by blast
  with assms(3) show ?thesis by (simp add: expo_def)
qed

lemma round64_not_NaN: "round64 x \<noteq> NaN"
proof (cases "x = 0")
  case True
  then show ?thesis by (simp add: round64_def Let_def)
next
  case False
  then show ?thesis by (auto simp: round64_def Let_def)
qed

lemma round64_cases:
  "round64 x =
     (if huge \<le> \<bar>of_int (rint (x / 2 powi (expo x - 52))) * 2 powi (expo x - 52)\<bar>
      then inf_of_sign x
      else Fin (of_int (rint (x / 2 powi (expo x - 52))) * 2 powi (expo x - 52)))"
  by (simp add: round64_def Let_def)

lemma round64_0 [simp]: "round64 0 = Fin 0"
  by (simp add: round64_cases)

lemma round64_nonneg: "0 \<le> x \<Longrightarrow> fle (Fin 0) (round64 x)"
proof -
  assume x: "0 \<le> x"
  define y :: real where
    "y = of_int (rint (x / 2 powi (expo x - 52))) * 2 powi (expo x - 52)"
  have r: "round64 x = (if huge \<le> \<bar>y\<bar> then inf_of_sign x else Fin y)"
    unfolding y_def by (rule round64_cases)
  have u: "0 < (2::real) powi (expo x - 52)" by simp
  from x u have "0 \<le> x / 2 powi (expo x - 52)" by simp
  then have "0 \<le> rint (x / 2 powi (expo x - 52))" by (rule rint_nonneg)
  then have y: "0 \<le> y" by (simp add: y_def)
  show ?thesis
  proof (cases "x = 0")
    case True
    then show ?thesis by simp
  next
    case False
    with x have "inf_of_sign x = PInf" by simp
    with y show ?thesis unfolding r by simp
  qed
qed

lemma round64_nonpos: "x \<le> 0 \<Longrightarrow> fle (round64 x) (Fin 0)"
proof -
  assume x: "x \<le> 0"
  define y :: real where
    "y = of_int (rint (x / 2 powi (expo x - 52))) * 2 powi (expo x - 52)"
  have r: "round64 x = (if huge \<le> \<bar>y\<bar> then inf_of_sign x else Fin y)"
    unfolding y_def by (rule round64_cases)
  have u: "0 < (2::real) powi (expo x - 52)" by simp
  from x u have "x / 2 powi (expo x - 52) \<le> 0" by (simp add: divide_nonpos_pos)
  then have "rint (x / 2 powi (expo x - 52)) \<le> 0" by (rule rint_nonpos)
  then have "real_of_int (rint (x / 2 powi (expo x - 52))) \<le> 0" by simp
  then have y: "y \<le> 0"
    unfolding y_def using u by (simp add: mult_le_0_iff)
  show ?thesis
  proof (cases "x = 0")
    case True
    then show ?thesis by simp
  next
    case False
    with x have "inf_of_sign x = NInf" by simp
    with y show ?thesis unfolding r by simp
  qed
qed

text \<open>
  A multiple \<open>k * 2 powi j\<close> with fewer than 54 bits in \<open>k\<close>, in range, is a double:
  rounding leaves it as it is.
\<close>

lemma round64_exact:
  assumes x: "x = of_int k * 2 powi j" and k: "\<bar>k\<bar> < 2 ^ 53" and j: "- 1074 \<le> j"
    and r: "\<bar>x\<bar> < huge"
  shows "round64 x = Fin x"
proof (cases "k = 0")
  case True
  with x show ?thesis by simp
next
  case False
  have xabs: "\<bar>x\<bar> = of_int \<bar>k\<bar> * 2 powi j" by (simp add: x abs_mult)
  have x0: "x \<noteq> 0" using False x by simp
  have "real_of_int \<bar>k\<bar> < real_of_int (2 ^ 53)" using k by (simp only: of_int_less_iff)
  then have "\<bar>x\<bar> < 2 ^ 53 * 2 powi j" unfolding xabs by simp
  also have "\<dots> = 2 powi (j + 53)" by (simp add: power_int_add)
  finally have up: "\<bar>x\<bar> < 2 powi (j + 53)" .
  have ej: "expo x \<le> j + 52"
  proof (rule ccontr)
    assume "\<not> expo x \<le> j + 52"
    then have gt: "j + 53 \<le> expo x" by simp
    with j have "expo x \<noteq> - 1022" by simp
    with expo_lower [OF x0] have "2 powi expo x \<le> \<bar>x\<bar>" by simp
    moreover have "(2::real) powi (j + 53) \<le> 2 powi expo x"
      by (rule power_int_increasing) (use gt in simp_all)
    ultimately show False using up by linarith
  qed
  define n where "n = nat (j + 52 - expo x)"
  define u :: real where "u = 2 powi (expo x - 52)"
  have upos: "0 < u" by (simp add: u_def)
  have jn: "j = (expo x - 52) + int n" using ej by (simp add: n_def)
  have pj: "(2::real) powi j = 2 ^ n * u"
    unfolding u_def by (subst jn) (simp add: power_int_add)
  have "x / u = of_int (k * 2 ^ n)"
    using upos by (simp add: x pj)
  then have "rint (x / u) = k * 2 ^ n" by (simp only: rint_of_int)
  then have "of_int (rint (x / u)) * u = x" by (simp add: x pj)
  then have "of_int (rint (x / 2 powi (expo x - 52))) * 2 powi (expo x - 52) = x"
    by (simp add: u_def)
  then show ?thesis using r unfolding round64_cases by simp
qed

lemma round64_of_int:
  assumes "\<bar>k\<bar> < 2 ^ 53"
  shows "round64 (of_int k) = Fin (of_int k)"
proof -
  have "real_of_int \<bar>k\<bar> < real_of_int (2 ^ 53)" using assms by (simp only: of_int_less_iff)
  then have "\<bar>real_of_int k\<bar> < huge" by (simp add: huge_def)
  then show ?thesis
    by (intro round64_exact [where k = k and j = 0]) (use assms in simp_all)
qed

lemma round64_1 [simp]: "round64 1 = Fin 1"
  using round64_of_int [of 1] by simp

lemma rounding_round64: "rounding round64"
  by (simp add: rounding_def round64_not_NaN round64_nonneg round64_nonpos)

lemma rounding_Fin: "rounding Fin"
  by (auto simp: rounding_def fle_def)

text \<open>A rounded result is within half a unit in the last place of the exact one.\<close>

lemma round64_accuracy:
  "round64 x = PInf \<or> round64 x = NInf
   \<or> (\<exists>y. round64 x = Fin y \<and> \<bar>y - x\<bar> \<le> \<bar>x\<bar> / 2 ^ 53 + 1 / 2 ^ 1075)"
proof (cases "x = 0")
  case True
  then show ?thesis by simp
next
  case False
  define u :: real where "u = 2 powi (expo x - 52)"
  define y where "y = of_int (rint (x / u)) * u"
  have upos: "0 < u" by (simp add: u_def)
  have "y - x = (of_int (rint (x / u)) - x / u) * u"
    using upos by (simp add: y_def field_simps)
  then have "\<bar>y - x\<bar> = \<bar>of_int (rint (x / u)) - x / u\<bar> * u"
    using upos by (simp add: abs_mult)
  also have "\<dots> \<le> 1 / 2 * u"
    using rint_error [of "x / u"] upos by (intro mult_right_mono) simp_all
  finally have err: "\<bar>y - x\<bar> \<le> u / 2" by simp
  have "u / 2 \<le> \<bar>x\<bar> / 2 ^ 53 + 1 / 2 ^ 1075"
  proof -
    from expo_lower [OF False] show ?thesis
    proof
      assume "expo x = - 1022"
      then have "u = 2 powi (- 1074)" by (simp add: u_def)
      also have "\<dots> = 1 / 2 ^ 1074" by (simp add: power_int_minus field_simps)
      finally have "u / 2 = 1 / 2 ^ 1075" by simp
      then show ?thesis by simp
    next
      assume l: "2 powi expo x \<le> \<bar>x\<bar>"
      have "u = 2 powi expo x * 2 powi (- 52)"
        unfolding u_def by (simp add: power_int_diff power_int_minus field_simps)
      also have "(2::real) powi (- 52) = 1 / 2 ^ 52" by (simp add: power_int_minus field_simps)
      finally have "u / 2 = 2 powi expo x / 2 ^ 53" by simp
      also have "\<dots> \<le> \<bar>x\<bar> / 2 ^ 53" using l by (simp add: divide_right_mono)
      finally show ?thesis by simp
    qed
  qed
  with err have "\<bar>y - x\<bar> \<le> \<bar>x\<bar> / 2 ^ 53 + 1 / 2 ^ 1075" by linarith
  moreover have "round64 x = (if huge \<le> \<bar>y\<bar> then inf_of_sign x else Fin y)"
    by (simp add: round64_def Let_def y_def u_def)
  ultimately show ?thesis using False by auto
qed

text \<open>Rounding a double again changes nothing.\<close>

lemma round64_idem:
  assumes "round64 x = Fin y"
  shows "round64 y = Fin y"
proof -
  define u :: real where "u = 2 powi (expo x - 52)"
  define k where "k = rint (x / u)"
  have upos: "0 < u" by (simp add: u_def)
  have r: "round64 x = (if huge \<le> \<bar>of_int k * u\<bar> then inf_of_sign x else Fin (of_int k * u))"
    by (simp add: round64_def Let_def k_def u_def)
  with assms have y: "y = of_int k * u" and small: "\<bar>y\<bar> < huge"
    by (auto split: if_splits)
  have "\<bar>x\<bar> / u < 2 powi (expo x + 1) / u"
    using expo_upper [of x] upos by (simp add: divide_strict_right_mono)
  also have "2 powi (expo x + 1) / u = 2 ^ 53"
    unfolding u_def by (simp add: power_int_add power_int_diff)
  finally have "\<bar>x / u\<bar> \<le> real_of_int (2 ^ 53)" using upos by simp
  then have kb: "\<bar>k\<bar> \<le> 2 ^ 53" unfolding k_def by (rule rint_abs_le)
  show ?thesis
  proof (cases "\<bar>k\<bar> < 2 ^ 53")
    case True
    show ?thesis
      by (rule round64_exact [where k = k and j = "expo x - 52"])
        (use True small expo_ge [of x] in \<open>simp_all add: y u_def\<close>)
  next
    case False
    with kb have "\<bar>k\<bar> = 2 ^ 53" by simp
    then consider "k = 2 ^ 53" | "k = - (2 ^ 53)" by (auto simp: abs_if split: if_splits)
    then obtain s :: int where s: "\<bar>s\<bar> = 1" "k = s * 2 ^ 53"
      by cases (auto intro: that [of 1] that [of "- 1"])
    have "y = of_int s * 2 powi (expo x + 1)"
      unfolding y s u_def by (simp add: power_int_add power_int_diff)
    then show ?thesis
      by (intro round64_exact [where k = s and j = "expo x + 1"])
        (use s small expo_ge [of x] in simp_all)
  qed
qed

lemma round64_int_nonzero:
  assumes "k \<noteq> 0"
  shows "round64 (of_int k) \<noteq> Fin 0"
proof
  assume z: "round64 (real_of_int k) = Fin 0"
  from assms have "1 \<le> \<bar>k\<bar>" by simp
  then have "real_of_int 1 \<le> real_of_int \<bar>k\<bar>" by (simp only: of_int_le_iff)
  then have k1: "1 \<le> \<bar>real_of_int k\<bar>" by simp
  from round64_accuracy [of "real_of_int k"] z
  have "\<bar>0 - real_of_int k\<bar> \<le> \<bar>real_of_int k\<bar> / 2 ^ 53 + 1 / 2 ^ 1075" by auto
  then have "\<bar>real_of_int k\<bar> * (1 - 1 / 2 ^ 53) \<le> 1 / 2 ^ 1075"
    by (simp add: algebra_simps)
  moreover have "1 / 2 \<le> \<bar>real_of_int k\<bar> * (1 - 1 / 2 ^ 53)"
  proof -
    have "(1::real) / 2 \<le> 1 * (1 - 1 / 2 ^ 53)" by simp
    also have "\<dots> \<le> \<bar>real_of_int k\<bar> * (1 - 1 / 2 ^ 53)"
      using k1 by (intro mult_right_mono) simp_all
    finally show ?thesis .
  qed
  moreover have "(1::real) / 2 ^ 1075 < 1 / 2" by simp
  ultimately show False by linarith
qed

text \<open>Integers and half-integers of moderate size are doubles.\<close>

lemma round64_half:
  assumes "of_int \<lfloor>x * 2\<rfloor> = x * 2" and "\<bar>x\<bar> < 2 ^ 51"
  shows "round64 x = Fin x"
proof -
  have "\<bar>x * 2\<bar> < 2 ^ 52" using assms(2) by simp
  then have "\<bar>real_of_int \<lfloor>x * 2\<rfloor>\<bar> < 2 ^ 52" by (simp only: assms(1))
  then have "real_of_int \<bar>\<lfloor>x * 2\<rfloor>\<bar> < real_of_int (2 ^ 52)" by simp
  then have "\<bar>\<lfloor>x * 2\<rfloor>\<bar> < 2 ^ 52" by (simp only: of_int_less_iff)
  then have k: "\<bar>\<lfloor>x * 2\<rfloor>\<bar> < 2 ^ 53" by simp
  have x: "x = of_int \<lfloor>x * 2\<rfloor> * 2 powi (- 1)"
    by (simp add: assms(1) power_int_minus)
  have "\<bar>x\<bar> < huge" using assms(2) by (simp add: huge_def)
  with x k show ?thesis by (intro round64_exact [where k = "\<lfloor>x * 2\<rfloor>" and j = "- 1"]) simp_all
qed

section \<open>Shapes of the columns\<close>

lemma length_shift1 [simp]: "length (shift1 xs) = length xs"
  by (simp add: shift1_def)

lemma shift1_nth: "0 < t \<Longrightarrow> t < length xs \<Longrightarrow> shift1 xs ! t = Fin (xs ! (t - 1))"
  by (cases t) (auto simp: shift1_def nth_butlast)

lemma shift1_first: "xs \<noteq> [] \<Longrightarrow> shift1 xs ! 0 = NaN"
  by (simp add: shift1_def)

lemma length_diff [simp]: "length (diff rnd xs) = length xs"
  by (simp add: diff_def)

lemma length_pct_change [simp]: "length (pct_change rnd xs) = length xs"
  by (simp add: pct_change_def)

lemma length_roll_mean [simp]: "length (roll_mean rnd w vals xs i s n) = length xs"
  by (induction xs arbitrary: i s n) (simp_all add: Let_def)

lemma length_rolling_mean [simp]: "length (rolling_mean rnd w xs) = length xs"
  by (simp add: rolling_mean_def)

lemma length_cumprod_from [simp]: "length (cumprod_from rnd p xs) = length xs"
  by (induction xs arbitrary: p) simp_all

lemma length_cumprod [simp]: "length (cumprod rnd xs) = length xs"
  by (simp add: cumprod_def)

lemma length_cummax_from [simp]: "length (cummax_from m xs) = length xs"
  by (induction xs arbitrary: m) simp_all

lemma length_cummax [simp]: "length (cummax xs) = length xs"
  by (simp add: cummax_def)

lemma length_Signal [simp]:
  "length (Signal (calculate_signals rnd self d)) = length (Close d)"
  by (simp add: calculate_signals_def Let_def)

lemma Close_calculate_signals [simp]: "Close (calculate_signals rnd self d) = Close d"
  by (simp add: calculate_signals_def Let_def)

lemma Daily_Return_backtest: "Daily_Return (backtest rnd self d) = pct_change rnd (Close d)"
  by (simp add: backtest_def Let_def)

lemma Strategy_Return_backtest:
  "Strategy_Return (backtest rnd self d) =
     map2 (fmul rnd) (pct_change rnd (Close d)) (shift1 (map real_of_int (Signal d)))"
  by (simp add: backtest_def Let_def)

lemma Buy_Hold_Return_backtest:
  "Buy_Hold_Return (backtest rnd self d) =
     cumprod rnd (map (fadd rnd (Fin 1)) (pct_change rnd (Close d)))"
  by (simp add: backtest_def Let_def)

lemma Strategy_Cumulative_backtest:
  "Strategy_Cumulative (backtest rnd self d) =
     cumprod rnd (map (fadd rnd (Fin 1)) (Strategy_Return (backtest rnd self d)))"
  by (simp add: backtest_def Let_def)

lemma Buy_Hold_Value_backtest:
  "Buy_Hold_Value (backtest rnd self d) =
     map (fmul rnd (Fin (initial_capital self))) (Buy_Hold_Return (backtest rnd self d))"
  by (simp add: backtest_def Let_def)

lemma Strategy_Value_backtest:
  "Strategy_Value (backtest rnd self d) =
     map (fmul rnd (Fin (initial_capital self))) (Strategy_Cumulative (backtest rnd self d))"
  by (simp add: backtest_def Let_def)

lemma length_Strategy_Return:
  "length (Signal d) = length (Close d) \<Longrightarrow>
     length (Strategy_Return (backtest rnd self d)) = length (Close d)"
  by (simp add: Strategy_Return_backtest)

lemma length_value_columns:
  "length (Buy_Hold_Value (backtest rnd self (calculate_signals rnd self d))) = length (Close d)"
  "length (Strategy_Value (backtest rnd self (calculate_signals rnd self d))) = length (Close d)"
  by (simp_all add: Buy_Hold_Value_backtest Buy_Hold_Return_backtest Strategy_Value_backtest
      Strategy_Cumulative_backtest Strategy_Return_backtest)

lemma pct_change_nth:
  assumes "0 < t" and "t < length xs"
  shows "pct_change rnd xs ! t = fsub rnd (fdiv rnd (Fin (xs ! t)) (Fin (xs ! (t - 1)))) (Fin 1)"
  using assms by (simp add: pct_change_def shift1_nth)

section \<open>The execution lag\<close>

text \<open>
  C1. At every bar \<open>t\<close> after the first, the daily return is \<open>close[t] / close[t-1] - 1\<close>
  and the strategy return is that daily return times the signal of \<open>t - 1\<close>, in float64
  arithmetic. So the strategy return at \<open>t\<close> is a function of the daily return at \<open>t\<close>
  and the signal at \<open>t - 1\<close> alone: a second frame that has the same signal at \<open>t - 1\<close>
  and the same daily return at \<open>t\<close> has the same strategy return at \<open>t\<close>, whatever its
  other signals are, the one at \<open>t\<close> included.
\<close>

theorem strategy_return_lag:
  assumes "0 < t" and "t < length (Close d)" and "length (Signal d) = length (Close d)"
    and "t < length (Close d')" and "length (Signal d') = length (Close d')"
    and "Signal d' ! (t - 1) = Signal d ! (t - 1)"
    and "Daily_Return (backtest rnd self' d') ! t = Daily_Return (backtest rnd self d) ! t"
  shows "Daily_Return (backtest rnd self d) ! t =
           fsub rnd (fdiv rnd (Fin (Close d ! t)) (Fin (Close d ! (t - 1)))) (Fin 1)
         \<and> Strategy_Return (backtest rnd self d) ! t =
           fmul rnd (fsub rnd (fdiv rnd (Fin (Close d ! t)) (Fin (Close d ! (t - 1)))) (Fin 1))
                    (Fin (real_of_int (Signal d ! (t - 1))))
         \<and> Strategy_Return (backtest rnd self' d') ! t
             = Strategy_Return (backtest rnd self d) ! t"
proof -
  have lag: "Strategy_Return (backtest rnd s e) ! t =
           fmul rnd (Daily_Return (backtest rnd s e) ! t)
                    (Fin (real_of_int (Signal e ! (t - 1))))"
    if "t < length (Close e)" and "length (Signal e) = length (Close e)" for s e
    using that assms(1)
    by (simp add: Strategy_Return_backtest Daily_Return_backtest shift1_nth)
  have dr: "Daily_Return (backtest rnd self d) ! t =
           fsub rnd (fdiv rnd (Fin (Close d ! t)) (Fin (Close d ! (t - 1)))) (Fin 1)"
    using assms(1,2) by (simp add: Daily_Return_backtest pct_change_nth)
  show ?thesis
    using assms lag dr by simp
qed

theorem strategy_return_lag_witness:
  "(0::nat) < 5
   \<and> 5 < length (Close (calculate_signals Fin fixture_strategy fixture_bars))
   \<and> Signal (calculate_signals Fin fixture_strategy fixture_bars)
       = [0, 0, 0, 0, 1, 1, 1, 1, 1, 1]
   \<and> Signal ((calculate_signals Fin fixture_strategy fixture_bars)
                \<lparr>Signal := [0, 0, 0, 0, 1, - 1, 0, 0, 0, 0]\<rparr>) ! 5
       \<noteq> Signal (calculate_signals Fin fixture_strategy fixture_bars) ! 5
   \<and> Daily_Return (backtest Fin fixture_strategy
         (calculate_signals Fin fixture_strategy fixture_bars)) ! 5 = Fin (- (2 / 103))
   \<and> Strategy_Return (backtest Fin fixture_strategy
         (calculate_signals Fin fixture_strategy fixture_bars)) ! 5 = Fin (- (2 / 103))
   \<and> Strategy_Return (backtest Fin crossing_strategy
         ((calculate_signals Fin fixture_strategy fixture_bars)
            \<lparr>Signal := [0, 0, 0, 0, 1, - 1, 0, 0, 0, 0]\<rparr>)) ! 5 = Fin (- (2 / 103))
   \<and> Daily_Return (backtest Fin fixture_strategy
         (calculate_signals Fin fixture_strategy fixture_bars)) ! 4 = Fin (1 / 102)
   \<and> Strategy_Return (backtest Fin fixture_strategy
         (calculate_signals Fin fixture_strategy fixture_bars)) ! 4 = Fin 0"
proof -
  let ?d = "calculate_signals Fin fixture_strategy fixture_bars"
  let ?d' = "?d\<lparr>Signal := [0, 0, 0, 0, 1, - 1, 0, 0, 0, 0]\<rparr>"
  have h1: "(0::nat) < 5" and g1: "(0::nat) < 4" by simp_all
  have h2: "5 < length (Close ?d)" and g2: "4 < length (Close ?d)"
    by (simp_all add: fixture_bars_def)
  have h3: "length (Signal ?d) = length (Close ?d)" by simp
  have h4: "5 < length (Close ?d')" by (simp add: fixture_bars_def)
  have h5: "length (Signal ?d') = length (Close ?d')" by (simp add: fixture_bars_def)
  have sig: "Signal ?d = [0, 0, 0, 0, 1, 1, 1, 1, 1, 1]" by code_simp
  have h6: "Signal ?d' ! (5 - 1) = Signal ?d ! (5 - 1)" by (simp add: sig)
  have h7: "Daily_Return (backtest Fin crossing_strategy ?d') ! 5
              = Daily_Return (backtest Fin fixture_strategy ?d) ! 5"
    by (simp add: Daily_Return_backtest)
  have g6: "Signal ?d ! (4 - 1) = Signal ?d ! (4 - 1)" by simp
  have g7: "Daily_Return (backtest Fin fixture_strategy ?d) ! 4
              = Daily_Return (backtest Fin fixture_strategy ?d) ! 4" by simp
  have ne: "Signal ?d' ! 5 \<noteq> Signal ?d ! 5" by (simp add: sig)
  note a = strategy_return_lag [OF h1 h2 h3 h4 h5 h6 h7]
  note b = strategy_return_lag [OF g1 g2 h3 g2 h3 g6 g7]
  have a1: "fsub Fin (fdiv Fin (Fin (Close ?d ! 5)) (Fin (Close ?d ! (5 - 1)))) (Fin 1)
              = Fin (- (2 / 103))"
    by (simp add: fixture_bars_def fsub_def)
  have a2: "fmul Fin (Fin (- (2 / 103))) (Fin (real_of_int (Signal ?d ! (5 - 1))))
              = Fin (- (2 / 103))"
    by (simp add: sig)
  have b1: "fsub Fin (fdiv Fin (Fin (Close ?d ! 4)) (Fin (Close ?d ! (4 - 1)))) (Fin 1)
              = Fin (1 / 102)"
    by (simp add: fixture_bars_def fsub_def)
  have b2: "fmul Fin (Fin (1 / 102)) (Fin (real_of_int (Signal ?d ! (4 - 1)))) = Fin 0"
    by (simp add: sig)
  from a b a1 a2 b1 b2 h1 h2 sig ne show ?thesis
    by (simp only: simp_thms)
qed

section \<open>The signal\<close>

lemma signal_of_cases: "signal_of s l \<in> {- 1, 0, 1}"
  by (simp add: signal_of_def Let_def)

lemma flt_irrefl: "\<not> flt x x"
  by (cases x) simp_all

lemma signal_of_NaN: "s = NaN \<or> l = NaN \<Longrightarrow> signal_of s l = 0"
  by (cases s; cases l) (auto simp: signal_of_def fgt_def)

lemma signal_of_tie: "signal_of s s = 0"
  by (simp add: signal_of_def fgt_def flt_irrefl)

lemma Signal_nth:
  "t < length (Close d) \<Longrightarrow>
     Signal (calculate_signals rnd self d) ! t =
       signal_of (SMA_short (calculate_signals rnd self d) ! t)
                 (SMA_long (calculate_signals rnd self d) ! t)"
  by (simp add: calculate_signals_def Let_def)

text \<open>
  C4. At every bar the signal is -1, 0 or 1; it is 0 where one of the two averages is
  NaN, and 0 where the two averages are equal.
\<close>

theorem signal_tri_state:
  assumes "t < length (Close d)"
  shows "Signal (calculate_signals rnd self d) ! t \<in> {- 1, 0, 1}
     \<and> (SMA_short (calculate_signals rnd self d) ! t = NaN
          \<or> SMA_long (calculate_signals rnd self d) ! t = NaN
        \<longrightarrow> Signal (calculate_signals rnd self d) ! t = 0)
     \<and> (SMA_short (calculate_signals rnd self d) ! t
          = SMA_long (calculate_signals rnd self d) ! t
        \<longrightarrow> Signal (calculate_signals rnd self d) ! t = 0)"
  using assms signal_of_cases signal_of_NaN signal_of_tie
  by (simp add: Signal_nth)

theorem signal_tri_state_witness:
  "0 < length (Close fixture_bars) \<and> 3 < length (Close fixture_bars)
   \<and> SMA_long (calculate_signals Fin fixture_strategy fixture_bars) ! 0 = NaN
   \<and> Signal (calculate_signals Fin fixture_strategy fixture_bars) ! 0 = 0
   \<and> SMA_short (calculate_signals Fin fixture_strategy fixture_bars) ! 3 = Fin (201 / 2)
   \<and> SMA_long (calculate_signals Fin fixture_strategy fixture_bars) ! 3 = Fin (201 / 2)
   \<and> Signal (calculate_signals Fin fixture_strategy fixture_bars) ! 3 = 0
   \<and> Signal (calculate_signals Fin fixture_strategy fixture_bars) ! 3 \<in> {- 1, 0, 1}"
proof -
  let ?d = "calculate_signals Fin fixture_strategy fixture_bars"
  have h0: "0 < length (Close fixture_bars)" and h3: "3 < length (Close fixture_bars)"
    by (simp_all add: fixture_bars_def)
  have l0: "SMA_long ?d ! 0 = NaN" by code_simp
  have s3: "SMA_short ?d ! 3 = Fin (201 / 2)" by code_simp
  have l3: "SMA_long ?d ! 3 = Fin (201 / 2)" by code_simp
  from signal_tri_state [OF h0, of Fin fixture_strategy]
    signal_tri_state [OF h3, of Fin fixture_strategy] h0 h3 l0 s3 l3
  show ?thesis by simp
qed

section \<open>The trade count\<close>

lemma crossing_short:
  "rolling_mean round64 (Suc 0) [10, 10, 11, 12, 11, 10, 10, 11]
     = [Fin 10, Fin 10, Fin 11, Fin 12, Fin 11, Fin 10, Fin 10, Fin 11]"
  by (simp add: rolling_mean_def calc_mean_def Let_def fsub_def round64_half)

lemma crossing_long:
  "rolling_mean round64 2 [10, 10, 11, 12, 11, 10, 10, 11]
     = [NaN, Fin 10, Fin (21 / 2), Fin (23 / 2), Fin (23 / 2), Fin (21 / 2), Fin 10,
        Fin (21 / 2)]"
  by (simp add: rolling_mean_def calc_mean_def Let_def fsub_def round64_half)

lemma crossing_frame:
  "calculate_signals round64 crossing_strategy crossing_bars =
     \<lparr>Close = [10, 10, 11, 12, 11, 10, 10, 11],
      SMA_short = [Fin 10, Fin 10, Fin 11, Fin 12, Fin 11, Fin 10, Fin 10, Fin 11],
      SMA_long = [NaN, Fin 10, Fin (21 / 2), Fin (23 / 2), Fin (23 / 2), Fin (21 / 2), Fin 10,
        Fin (21 / 2)],
      Signal = [0, 0, 1, 1, - 1, - 1, 0, 1],
      Position = [NaN, Fin 0, Fin 1, Fin 0, Fin (- 2), Fin 0, Fin 1, Fin 1]\<rparr>"
  by (simp add: calculate_signals_def crossing_strategy_def crossing_bars_def crossing_short
      crossing_long signal_of_def fgt_def diff_def shift1_def fsub_def round64_half)

text \<open>
  C2. On the eight bars whose signals are \<open>[0,0,1,1,-1,-1,0,1]\<close> the specification
  counts 4 trades. \<open>Position\<close> is NaN at the first bar, NaN compares unequal to 0, and
  the program reports 5.
\<close>

theorem num_trades_counts_first_bar:
  "Signal (calculate_signals round64 crossing_strategy crossing_bars)
     = [0, 0, 1, 1, - 1, - 1, 0, 1]
   \<and> trade_count (Signal (calculate_signals round64 crossing_strategy crossing_bars)) = 4
   \<and> Position (calculate_signals round64 crossing_strategy crossing_bars) ! 0 = NaN
   \<and> num_trades (Position (calculate_signals round64 crossing_strategy crossing_bars)) = 5"
  unfolding crossing_frame
  by (simp add: trade_count_def position_delta_def num_trades_def count_ne_zero_def fne_def
      upt_rec)

text \<open>
  The same holds on every non-empty signal column: the program's count is the
  specification's count plus one, the NaN of the first row.
\<close>

lemma diff_shape:
  assumes "xs \<noteq> []"
  shows "diff rnd xs = NaN # map (\<lambda>t. rnd (xs ! t - xs ! (t - 1))) [1..<length xs]"
proof (rule nth_equalityI)
  show "length (diff rnd xs) = length (NaN # map (\<lambda>t. rnd (xs ! t - xs ! (t - 1))) [1..<length xs])"
    using assms by (cases xs) (auto simp del: upt_Suc)
next
  fix i
  assume "i < length (diff rnd xs)"
  then have i: "i < length xs" by simp
  show "diff rnd xs ! i = (NaN # map (\<lambda>t. rnd (xs ! t - xs ! (t - 1))) [1..<length xs]) ! i"
  proof (cases i)
    case 0
    with i show ?thesis by (simp add: diff_def shift1_def fsub_def)
  next
    case (Suc k)
    with i have "diff rnd xs ! i = fsub rnd (Fin (xs ! i)) (shift1 xs ! i)"
      by (simp add: diff_def)
    also have "shift1 xs ! i = Fin (xs ! (i - 1))"
      using i Suc by (intro shift1_nth) simp_all
    finally have d: "diff rnd xs ! i = rnd (xs ! i - xs ! (i - 1))"
      by (simp add: fsub_def)
    have "[1..<length xs] ! k = 1 + k"
      using i Suc by (intro nth_upt) simp
    with d i Suc show ?thesis by (simp del: upt_Suc)
  qed
qed

lemma trade_count_after_first:
  "trade_count sig = length (filter (\<lambda>t. sig ! t \<noteq> sig ! (t - 1)) [1..<length sig])"
proof (cases "length sig")
  case 0
  then show ?thesis by (simp add: trade_count_def)
next
  case (Suc n)
  have "[0..<length sig] = 0 # [1..<length sig]"
    using Suc by (simp add: upt_conv_Cons)
  then have "trade_count sig
               = length (filter (\<lambda>t. position_delta sig t \<noteq> 0) [1..<length sig])"
    by (simp add: trade_count_def position_delta_def)
  also have "filter (\<lambda>t. position_delta sig t \<noteq> 0) [1..<length sig]
               = filter (\<lambda>t. sig ! t \<noteq> sig ! (t - 1)) [1..<length sig]"
    by (rule filter_cong) (auto simp: position_delta_def)
  finally show ?thesis .
qed

lemma num_trades_one_more:
  assumes z: "rnd 0 = Fin 0" and nz: "\<And>k::int. k \<noteq> 0 \<Longrightarrow> rnd (of_int k) \<noteq> Fin 0"
    and "sig \<noteq> []"
  shows "num_trades (diff rnd (map real_of_int sig)) = Suc (trade_count sig)"
proof -
  let ?xs = "map real_of_int sig"
  have ne: "?xs \<noteq> []" using assms(3) by simp
  have f: "fne (rnd (?xs ! t - ?xs ! (t - 1))) (Fin 0) \<longleftrightarrow> sig ! t \<noteq> sig ! (t - 1)"
    if "t \<in> set [1..<length sig]" for t
  proof -
    from that have t: "t < length sig" "t - 1 < length sig" by auto
    then have e: "?xs ! t - ?xs ! (t - 1) = real_of_int (sig ! t - sig ! (t - 1))" by simp
    show ?thesis
    proof (cases "sig ! t = sig ! (t - 1)")
      case True
      then show ?thesis unfolding e by (simp add: z fne_def)
    next
      case False
      then have "sig ! t - sig ! (t - 1) \<noteq> 0" by simp
      from nz [OF this] False show ?thesis unfolding e by (auto simp: fne_def)
    qed
  qed
  have "filter (\<lambda>x. fne x (Fin 0)) (map (\<lambda>t. rnd (?xs ! t - ?xs ! (t - 1))) [1..<length sig])
          = map (\<lambda>t. rnd (?xs ! t - ?xs ! (t - 1)))
              (filter (\<lambda>t. sig ! t \<noteq> sig ! (t - 1)) [1..<length sig])"
    unfolding filter_map by (rule arg_cong [where f = "map _"], rule filter_cong)
      (use f in \<open>simp_all add: o_def\<close>)
  then have "length (filter (\<lambda>x. fne x (Fin 0))
               (map (\<lambda>t. rnd (?xs ! t - ?xs ! (t - 1))) [1..<length sig]))
          = trade_count sig"
    by (simp add: trade_count_after_first)
  then show ?thesis
    unfolding num_trades_def count_ne_zero_def diff_shape [OF ne]
    by (simp add: fne_def)
qed

lemma num_trades_one_more_float64:
  "sig \<noteq> [] \<Longrightarrow> num_trades (diff round64 (map real_of_int sig)) = Suc (trade_count sig)"
  by (rule num_trades_one_more) (simp_all add: round64_int_nonzero)

section \<open>Portfolio values\<close>

text \<open>
  C8. At every bar each value column is the initial capital times its cumulative factor.
\<close>

theorem value_is_capital_times_factor:
  assumes "t < length (Close d)"
  shows "Buy_Hold_Value (backtest rnd self (calculate_signals rnd self d)) ! t =
           fmul rnd (Fin (initial_capital self))
                (Buy_Hold_Return (backtest rnd self (calculate_signals rnd self d)) ! t)
     \<and> Strategy_Value (backtest rnd self (calculate_signals rnd self d)) ! t =
           fmul rnd (Fin (initial_capital self))
                (Strategy_Cumulative (backtest rnd self (calculate_signals rnd self d)) ! t)"
  using assms
  by (simp add: Buy_Hold_Value_backtest Strategy_Value_backtest Buy_Hold_Return_backtest
      Strategy_Cumulative_backtest length_Strategy_Return)

theorem value_is_capital_times_factor_witness:
  "9 < length (Close fixture_bars)
   \<and> Buy_Hold_Return (backtest Fin fixture_strategy
         (calculate_signals Fin fixture_strategy fixture_bars)) ! 9 = Fin (11 / 10)
   \<and> Buy_Hold_Value (backtest Fin fixture_strategy
         (calculate_signals Fin fixture_strategy fixture_bars)) ! 9 = Fin 1100
   \<and> Strategy_Cumulative (backtest Fin fixture_strategy
         (calculate_signals Fin fixture_strategy fixture_bars)) ! 9 = Fin (110 / 103)
   \<and> Strategy_Value (backtest Fin fixture_strategy
         (calculate_signals Fin fixture_strategy fixture_bars)) ! 9 = Fin (1000 * (110 / 103))"
proof -
  let ?d = "backtest Fin fixture_strategy (calculate_signals Fin fixture_strategy fixture_bars)"
  have h: "9 < length (Close fixture_bars)" by (simp add: fixture_bars_def)
  have b: "Buy_Hold_Return ?d ! 9 = Fin (11 / 10)" by code_simp
  have c: "Strategy_Cumulative ?d ! 9 = Fin (110 / 103)" by code_simp
  have i: "initial_capital fixture_strategy = 1000" by (simp add: fixture_strategy_def)
  from value_is_capital_times_factor [OF h, of Fin fixture_strategy] h b c i
  show ?thesis by simp
qed

section \<open>Buy-and-hold does not see the windows\<close>

text \<open>
  C10. Changing only \<open>short_window\<close> and \<open>long_window\<close> of a run leaves the daily
  returns, the buy-and-hold cumulative factor and value columns, and the buy-and-hold
  metrics (total return, annualised return, Sharpe ratio, final value) as they are; a run
  that fails, fails with the same error.
\<close>

theorem buy_hold_ignores_windows:
  "Daily_Return (backtest rnd (self\<lparr>short_window := s, long_window := l\<rparr>)
       (calculate_signals rnd (self\<lparr>short_window := s, long_window := l\<rparr>) d))
     = Daily_Return (backtest rnd self (calculate_signals rnd self d))
   \<and> Buy_Hold_Return (backtest rnd (self\<lparr>short_window := s, long_window := l\<rparr>)
       (calculate_signals rnd (self\<lparr>short_window := s, long_window := l\<rparr>) d))
     = Buy_Hold_Return (backtest rnd self (calculate_signals rnd self d))
   \<and> Buy_Hold_Value (backtest rnd (self\<lparr>short_window := s, long_window := l\<rparr>)
       (calculate_signals rnd (self\<lparr>short_window := s, long_window := l\<rparr>) d))
     = Buy_Hold_Value (backtest rnd self (calculate_signals rnd self d))
   \<and> map_sum id buy_hold_metrics (run rnd (self\<lparr>short_window := s, long_window := l\<rparr>) d)
     = map_sum id buy_hold_metrics (run rnd self d)"
proof -
  let ?self' = "self\<lparr>short_window := s, long_window := l\<rparr>"
  let ?a = "backtest rnd self (calculate_signals rnd self d)"
  let ?b = "backtest rnd ?self' (calculate_signals rnd ?self' d)"
  have dr: "Daily_Return ?b = Daily_Return ?a"
    by (simp add: Daily_Return_backtest)
  have bh: "Buy_Hold_Return ?b = Buy_Hold_Return ?a"
    by (simp add: Buy_Hold_Return_backtest)
  have bv: "Buy_Hold_Value ?b = Buy_Hold_Value ?a"
    by (simp add: Buy_Hold_Value_backtest bh)
  have yrs: "years_of rnd ?self' = years_of rnd self"
    by (simp add: years_of_def)
  have empty: "(Strategy_Value ?b = []) = (Strategy_Value ?a = [])"
    by (metis length_value_columns(2) length_0_conv)
  have "map_sum id buy_hold_metrics (run rnd ?self' d) = map_sum id buy_hold_metrics (run rnd self d)"
    using empty
    by (simp add: run_def calculate_metrics_def dr bv yrs buy_hold_metrics_def iloc_last_def
        annual_return_def split: sum.splits)
  with dr bh bv show ?thesis by simp
qed

end
